theory Spec2Isabelle
  imports Main "HOL-Library.Word"
begin

section \<open>Values\<close>

text \<open>
  Strings are lists of 8-bit characters: a character stands for a code unit below 256.
  JavaScript values that cross the HTTP and store boundaries are JSON values; an object
  keeps its keys in insertion order.
\<close>

datatype json =
    JNull
  | JBool bool
  | JNum int
  | JStr string
  | JArr "json list"
  | JObj "(string \<times> json) list"


section \<open>Errors (expressError.js) and the error funnel (app.js)\<close>

text \<open>
  An \<^verbatim>\<open>ExpressError\<close> carries a message and a status. The message is a string, or the
  array of validator messages that the routes pass to \<^verbatim>\<open>BadRequestError\<close>. Any other
  thrown value (a driver error, a \<^verbatim>\<open>TypeError\<close>, a rejected bcrypt promise) has no
  status field; it is \<open>OtherError\<close>.
\<close>

datatype message = Msg string | Msgs "string list"

datatype error =
    NotFoundError message
  | UnauthorizedError message
  | BadRequestError message
  | ForbiddenError message
  | OtherError string

text \<open>\<^verbatim>\<open>const status = err.status || 500\<close> of the generic handler in app.js.\<close>

fun status_of :: "error \<Rightarrow> nat" where
  "status_of (NotFoundError _) = 404"
| "status_of (UnauthorizedError _) = 401"
| "status_of (BadRequestError _) = 400"
| "status_of (ForbiddenError _) = 403"
| "status_of (OtherError _) = 500"

section \<open>Numbers in template strings\<close>

text \<open>The decimal rendering of an integer, as a template literal interpolates it.\<close>

definition digit_char :: "nat \<Rightarrow> char" where
  "digit_char d = char_of (48 + d)"

function show_nat :: "nat \<Rightarrow> string" where
  "show_nat n = (if n < 10 then [digit_char n] else show_nat (n div 10) @ [digit_char (n mod 10)])"
  by pat_completeness auto
termination
  by (relation "measure id") auto

declare show_nat.simps [simp del]

definition show_int :: "int \<Rightarrow> string" where
  "show_int i = (if i < 0 then CHR ''-'' # show_nat (nat (- i)) else show_nat (nat i))"

section \<open>The relational store (neweats-schema.sql)\<close>

text \<open>
  \<^verbatim>\<open>users\<close>: \<^verbatim>\<open>user_id\<close> is the serial primary key, a 32-bit signed integer column;
  \<^verbatim>\<open>username\<close>, \<^verbatim>\<open>password\<close> and \<^verbatim>\<open>google_id\<close> are nullable. \<^verbatim>\<open>recipes\<close> is keyed by its
  text primary key \<^verbatim>\<open>recipe_id\<close>. \<^verbatim>\<open>shopping_list\<close> has a unique \<^verbatim>\<open>user_id\<close>, so it is a map
  from the owning user to the stored array; its foreign key to \<^verbatim>\<open>users\<close> is checked when
  a row is written.
\<close>

type_synonym int4 = "32 word"

record user_row =
  user_id :: int4
  username :: "string option"
  password :: "string option"
  first_name :: string
  last_name :: string
  email :: string
  google_id :: "string option"

record recipe_row =
  recipe_id :: string
  label :: string
  image :: string
  ingredients :: "string list"
  url :: string

record db =
  users :: "user_row list"
  recipes :: "string \<rightharpoonup> recipe_row"
  shopping_list :: "int4 \<rightharpoonup> string list"

text \<open>A name or value in double quotes, as the store's messages show it.\<close>

definition quoted :: "string \<Rightarrow> string" where
  "quoted str = CHR 0x22 # str @ [CHR 0x22]"

text \<open>
  A JavaScript number bound to an integer column: the store rejects a value outside
  the range of the column, and its message quotes the value.
\<close>

definition to_int4 :: "int \<Rightarrow> error + int4" where
  "to_int4 i =
     (if - (2 ^ 31) \<le> i \<and> i < 2 ^ 31 then Inr (word_of_int i)
      else Inl (OtherError (''value '' @ quoted (show_int i) @ '' is out of range for type integer'')))"

text \<open>
  A text value of the store cannot hold the NUL character. A statement with a text
  parameter, or a text array parameter, that holds one is rejected when the parameter
  is bound, before the statement reads or writes anything, and the driver's error
  propagates.
\<close>

definition storable_text :: "string \<Rightarrow> bool" where
  "storable_text str = list_all (\<lambda>c. c \<noteq> CHR 0x00) str"

definition storable_array :: "string list \<Rightarrow> bool" where
  "storable_array strs = list_all storable_text strs"

definition invalid_byte_sequence :: error where
  "invalid_byte_sequence =
     OtherError (''invalid byte sequence for encoding '' @ quoted ''UTF8'' @ '': 0x00'')"

text \<open>\<^verbatim>\<open>SELECT ... FROM users WHERE user_id = $1\<close>, then \<^verbatim>\<open>rows[0]\<close>.\<close>

definition select_user_by_id :: "db \<Rightarrow> int4 \<Rightarrow> user_row option" where
  "select_user_by_id s uid = find (\<lambda>r. user_id r = uid) (users s)"

subsection \<open>Array operators of the store\<close>

text \<open>
  \<^verbatim>\<open>a <@ b\<close>: every element of \<open>a\<close> occurs in \<open>b\<close> (order and multiplicity are ignored);
  \<^verbatim>\<open>a || b\<close> on one-dimensional arrays is concatenation, written \<open>a @ b\<close> below.
\<close>

definition contained_by :: "string list \<Rightarrow> string list \<Rightarrow> bool" where
  "contained_by a b = list_all (\<lambda>x. x \<in> set b) a"

section \<open>Shopping list (models/shopping-list.js)\<close>

text \<open>
  \<^verbatim>\<open>getUserShoppingList\<close>: the stored array of the row of \<open>uid\<close>, or the empty array when
  no row exists.
\<close>

definition getUserShoppingList :: "db \<Rightarrow> int4 \<Rightarrow> string list" where
  "getUserShoppingList s uid =
     (case shopping_list s uid of Some ings \<Rightarrow> ings | None \<Rightarrow> [])"

text \<open>
  The statement of \<^verbatim>\<open>addRecipeIngredients\<close>:
  \<^verbatim>\<open>INSERT INTO shopping_list (user_id, ingredients) VALUES ($1, $2)
  ON CONFLICT (user_id) DO UPDATE SET ingredients = shopping_list.ingredients || $2
  WHERE NOT ($2 <@ shopping_list.ingredients)\<close>.
  The array \<^verbatim>\<open>$2\<close> is bound first; the result is the store's error or the new store.
\<close>

definition upsert_append :: "db \<Rightarrow> int4 \<Rightarrow> string list \<Rightarrow> error + db" where
  "upsert_append s uid ings =
     (if \<not> storable_array ings then Inl invalid_byte_sequence
      else Inr (case shopping_list s uid of
                  None \<Rightarrow> s\<lparr>shopping_list := (shopping_list s)(uid \<mapsto> ings)\<rparr>
                | Some cur \<Rightarrow>
                    if \<not> contained_by ings cur
                    then s\<lparr>shopping_list := (shopping_list s)(uid \<mapsto> cur @ ings)\<rparr>
                    else s))"

text \<open>
  \<^verbatim>\<open>addRecipeIngredients\<close>: the user must exist, then the upsert runs and the stored list
  is read back. The result is the returned list and the new store, or the error thrown
  (nothing is written then).
\<close>

definition addRecipeIngredients :: "db \<Rightarrow> int4 \<Rightarrow> string list \<Rightarrow> error + (string list \<times> db)" where
  "addRecipeIngredients s uid ings =
     (case select_user_by_id s uid of
        None \<Rightarrow> Inl (NotFoundError (Msg (''No user found with ID: '' @ show_int (sint uid))))
      | Some _ \<Rightarrow>
          (case upsert_append s uid ings of
             Inl e \<Rightarrow> Inl e
           | Inr s' \<Rightarrow> Inr (getUserShoppingList s' uid, s')))"

text \<open>
  \<^verbatim>\<open>updateList\<close>:
  \<^verbatim>\<open>INSERT INTO shopping_list (user_id, ingredients) VALUES ($1, $2)
  ON CONFLICT (user_id) DO UPDATE SET ingredients = $2\<close>.
  The array \<^verbatim>\<open>$2\<close> is bound first. The function does not look the user up; the foreign
  key of the schema makes the statement fail for an identifier that is not in \<^verbatim>\<open>users\<close>,
  and the driver's error propagates. The value returned is the confirmation object
  \<^verbatim>\<open>{ message: "Shopping list updated successfully." }\<close>.
\<close>

definition updateList :: "db \<Rightarrow> int4 \<Rightarrow> string list \<Rightarrow> error + (json \<times> db)" where
  "updateList s uid ings =
     (if \<not> storable_array ings then Inl invalid_byte_sequence
      else case select_user_by_id s uid of
        None \<Rightarrow>
          Inl (OtherError (''insert or update on table '' @ quoted ''shopping_list''
                 @ '' violates foreign key constraint '' @ quoted ''fk_user_shopping_list''))
      | Some _ \<Rightarrow>
          Inr (JObj [(''message'', JStr ''Shopping list updated successfully.'')],
               s\<lparr>shopping_list := (shopping_list s)(uid \<mapsto> ings)\<rparr>))"

text \<open>The store after a call: unchanged when the call failed.\<close>

definition store_after :: "db \<Rightarrow> error + ('a \<times> db) \<Rightarrow> db" where
  "store_after s r = (case r of Inl _ \<Rightarrow> s | Inr (_, s') \<Rightarrow> s')"

section \<open>Users (models/user.js)\<close>





section \<open>Recipes (models/recipe.js)\<close>

text \<open>\<^verbatim>\<open>str.replace(/"/g, '\\"')\<close>: a backslash is put before every double quote.\<close>

definition sanitize :: "string \<Rightarrow> string" where
  "sanitize str = concat (map (\<lambda>c. if c = CHR 0x22 then [CHR 0x5C, CHR 0x22] else [c]) str)"

text \<open>
  \<^verbatim>\<open>JSON.stringify\<close> on an array of strings: the quoted elements, separated by commas,
  in brackets. Inside a string the double quote, the backslash and the control
  characters are escaped.
\<close>

definition hex_digit :: "nat \<Rightarrow> char" where
  "hex_digit d = (if d < 10 then char_of (48 + d) else char_of (87 + d))"

definition json_escape :: "char \<Rightarrow> string" where
  "json_escape c =
     (if c = CHR 0x22 then [CHR 0x5C, CHR 0x22]
      else if c = CHR 0x5C then [CHR 0x5C, CHR 0x5C]
      else if c = CHR 0x08 then [CHR 0x5C, CHR ''b'']
      else if c = CHR 0x0C then [CHR 0x5C, CHR ''f'']
      else if c = CHR 0x0A then [CHR 0x5C, CHR ''n'']
      else if c = CHR 0x0D then [CHR 0x5C, CHR ''r'']
      else if c = CHR 0x09 then [CHR 0x5C, CHR ''t'']
      else if (of_char c :: nat) < 32
        then [CHR 0x5C, CHR ''u'', CHR ''0'', CHR ''0'',
              hex_digit (of_char c div 16), hex_digit (of_char c mod 16)]
      else [c])"

definition json_quote :: "string \<Rightarrow> string" where
  "json_quote str = CHR 0x22 # concat (map json_escape str) @ [CHR 0x22]"

fun join :: "string \<Rightarrow> string list \<Rightarrow> string" where
  "join sep [] = []"
| "join sep [x] = x"
| "join sep (x # y # ys) = x @ sep @ join sep (y # ys)"

definition JSON_stringify :: "string list \<Rightarrow> string" where
  "JSON_stringify xs = ''['' @ join '','' (map json_quote xs) @ '']''"

text \<open>The row object of \<^verbatim>\<open>RETURNING label, image, ingredients, url\<close>.\<close>

definition returning_row :: "recipe_row \<Rightarrow> json" where
  "returning_row r =
     JObj [(''label'', JStr (label r)), (''image'', JStr (image r)),
           (''ingredients'', JArr (map JStr (ingredients r))), (''url'', JStr (url r))]"

text \<open>
  \<^verbatim>\<open>Recipe.createRecipe\<close>. The duplicate check looks the raw \<^verbatim>\<open>recipe_id\<close> up; the insert
  writes the sanitized one, and the primary key rejects it when such a row exists.
  The text parameters are those of the lookup (\<^verbatim>\<open>recipe_id\<close>) and of the insert (the
  sanitized fields and the ingredients). No stored key holds the NUL character, so a
  lookup that finds a row had an acceptable parameter, and the rejection of a
  \<^verbatim>\<open>recipe_id\<close> holding one is the first check of the branch where nothing is found.
\<close>

definition createRecipe :: "db \<Rightarrow> recipe_row \<Rightarrow> error + (json \<times> db)" where
  "createRecipe s d =
     (let sanitizedFields = \<lparr>recipe_id = sanitize (recipe_id d), label = sanitize (label d),
            image = sanitize (image d), ingredients = ingredients d, url = sanitize (url d)\<rparr>;
          sanitizedIngredients = sanitize (JSON_stringify (ingredients d))
      in case recipes s (recipe_id d) of
           Some _ \<Rightarrow>
             Inr (JArr [JStr (label sanitizedFields), JStr (image sanitizedFields),
                        JStr sanitizedIngredients, JStr (url sanitizedFields)], s)
         | None \<Rightarrow>
             if \<not> storable_text (recipe_id d) then Inl invalid_byte_sequence
             else if \<not> (storable_text (recipe_id sanitizedFields) \<and>
                         storable_text (label sanitizedFields) \<and>
                         storable_text (image sanitizedFields) \<and>
                         storable_array (ingredients sanitizedFields) \<and>
                         storable_text (url sanitizedFields))
               then Inl invalid_byte_sequence
             else (case recipes s (recipe_id sanitizedFields) of
                Some _ \<Rightarrow>
                  Inl (OtherError (''duplicate key value violates unique constraint ''
                         @ quoted ''recipes_pkey''))
              | None \<Rightarrow>
                  Inr (returning_row sanitizedFields,
                       s\<lparr>recipes := (recipes s)(recipe_id sanitizedFields \<mapsto> sanitizedFields)\<rparr>)))"

section \<open>Credentials and the authorization gate (middleware/auth.js)\<close>

text \<open>
  The claims of a bearer token, as \<^verbatim>\<open>createToken\<close> of helpers/tokens.js signs them and the
  verifier decodes them: \<^verbatim>\<open>{ firstName, user_id }\<close> and the issued-at time. The subject
  \<^verbatim>\<open>user_id\<close> is a string, as in the tests of the middleware.
\<close>

record jwt_payload =
  payload_firstName :: string
  payload_user_id :: string
  iat :: nat

text \<open>
  Modelled from the spec: the middleware module that defines \<^verbatim>\<open>authenticateJWT\<close> is not
  among the sources (only its tests are). The bearer token of a header of the form
  \<^verbatim>\<open>Bearer <token>\<close>.
\<close>

definition bearer_token :: "string \<Rightarrow> string option" where
  "bearer_token hdr = (if take 7 hdr = ''Bearer '' then Some (drop 7 hdr) else None)"

text \<open>
  Modelled from the spec: \<^verbatim>\<open>authenticateJWT\<close> is not among the sources. Token
  verification \<open>verify\<close> is the external collaborator, \<open>None\<close> for a token that fails.
  The arguments are the authorization header, if any, and the identity context
  \<^verbatim>\<open>res.locals.user\<close> before the step; the result is the error handed to \<^verbatim>\<open>next\<close>, if any,
  and the identity context after the step.
\<close>

definition authenticateJWT ::
  "(string \<Rightarrow> jwt_payload option) \<Rightarrow> string option \<Rightarrow> jwt_payload option
     \<Rightarrow> error option \<times> jwt_payload option" where
  "authenticateJWT verify authHeader locals_user =
     (case authHeader of
        None \<Rightarrow> (None, locals_user)
      | Some hdr \<Rightarrow>
          (case bearer_token hdr of
             None \<Rightarrow> (None, locals_user)
           | Some token \<Rightarrow>
               (case verify token of
                  None \<Rightarrow> (None, locals_user)
                | Some claims \<Rightarrow> (None, Some claims))))"

text \<open>
  Modelled from the spec: \<^verbatim>\<open>ensureCorrectUser\<close> (require-owner) is not among the
  sources. It fails with AuthenticationRequired when the identity context is empty,
  with OwnershipMismatch when the subject of the claims is not the same string as the
  owner identifier of the path, and passes otherwise.
\<close>

datatype gate_error = AuthenticationRequired | OwnershipMismatch

definition ensureCorrectUser :: "jwt_payload option \<Rightarrow> string \<Rightarrow> gate_error + unit" where
  "ensureCorrectUser locals_user params_user_id =
     (case locals_user of
        None \<Rightarrow> Inl AuthenticationRequired
      | Some claims \<Rightarrow>
          if payload_user_id claims = params_user_id then Inr () else Inl OwnershipMismatch)"

text \<open>Both failures of the gate are instances of \<^verbatim>\<open>UnauthorizedError\<close> (its tests say so).\<close>

definition gate_failure :: "gate_error \<Rightarrow> error" where
  "gate_failure e = UnauthorizedError (Msg ''Unauthorized'')"

section \<open>Partial-update clause builder (helpers/sql.js)\<close>

datatype clause_error = EmptyInputError

text \<open>The storage column of a logical field: the remapped name if the table has one.\<close>

definition column_name :: "(string \<rightharpoonup> string) \<Rightarrow> string \<Rightarrow> string" where
  "column_name jsToSql colName = (case jsToSql colName of Some c \<Rightarrow> c | None \<Rightarrow> colName)"

text \<open>A fragment \<^verbatim>\<open><column> = <placeholder>\<close>; the placeholder with index \<open>idx\<close> is \<^verbatim>\<open>$idx\<close>.\<close>

definition set_fragment :: "string \<Rightarrow> nat \<Rightarrow> string" where
  "set_fragment col idx = col @ '' = $'' @ show_nat idx"

text \<open>
  Modelled from the spec: \<^verbatim>\<open>sqlForPartialUpdate\<close> is not among the sources (only its
  call in \<^verbatim>\<open>User.update\<close> is). The sparse field map is the list of its entries in the
  order supplied. The result is the list of fragments and the list of values.
\<close>

definition sqlForPartialUpdate ::
  "(string \<times> json) list \<Rightarrow> (string \<rightharpoonup> string) \<Rightarrow> clause_error + (string list \<times> json list)" where
  "sqlForPartialUpdate dataToUpdate jsToSql =
     (if dataToUpdate = [] then Inl EmptyInputError
      else Inr (map (\<lambda>(idx, colName). set_fragment (column_name jsToSql colName) (idx + 1))
                  (enumerate 0 (map fst dataToUpdate)),
                map snd dataToUpdate))"

text \<open>The call in \<^verbatim>\<open>User.update\<close>: its remapping table and the placeholder of the user id.\<close>

definition user_jsToSql :: "string \<rightharpoonup> string" where
  "user_jsToSql = [''firstName'' \<mapsto> ''first_name'', ''lastName'' \<mapsto> ''last_name'']"

definition useridVarIdx :: "json list \<Rightarrow> string" where
  "useridVarIdx vals = ''$'' @ show_nat (length vals + 1)"

section \<open>Shopping routes (routes/shopping.js)\<close>

text \<open>
  \<^verbatim>\<open>parseInt(string)\<close> with no radix: leading white space is skipped, then an optional
  sign, then an optional \<^verbatim>\<open>0x\<close> or \<^verbatim>\<open>0X\<close> that selects radix 16 instead of 10; the
  longest run of digits of the radix is the value, and no digit at all gives NaN, here
  \<open>None\<close>. The value is an exact integer (the rounding of a number beyond 53 bits is
  not modelled).
\<close>

definition is_white_space :: "char \<Rightarrow> bool" where
  "is_white_space c = (c \<in> set [CHR 0x09, CHR 0x0A, CHR 0x0B, CHR 0x0C, CHR 0x0D, CHR 0x20, CHR 0xA0])"

definition digit_value :: "char \<Rightarrow> nat option" where
  "digit_value c =
     (let n = (of_char c :: nat)
      in if 48 \<le> n \<and> n \<le> 57 then Some (n - 48)
         else if 97 \<le> n \<and> n \<le> 122 then Some (n - 87)
         else if 65 \<le> n \<and> n \<le> 90 then Some (n - 55)
         else None)"

definition is_radix_digit :: "nat \<Rightarrow> char \<Rightarrow> bool" where
  "is_radix_digit R c = (case digit_value c of None \<Rightarrow> False | Some v \<Rightarrow> v < R)"

definition digits_value :: "nat \<Rightarrow> string \<Rightarrow> nat" where
  "digits_value R ds = foldl (\<lambda>acc c. acc * R + (case digit_value c of None \<Rightarrow> 0 | Some v \<Rightarrow> v)) 0 ds"

definition parseInt :: "string \<Rightarrow> int option" where
  "parseInt str =
     (let s1 = dropWhile is_white_space str;
          negative = (take 1 s1 = ''-'');
          s2 = (if take 1 s1 = ''-'' \<or> take 1 s1 = ''+'' then drop 1 s1 else s1);
          hex = (take 2 s2 = ''0x'' \<or> take 2 s2 = ''0X'');
          R = (if hex then 16 else 10);
          s3 = (if hex then drop 2 s2 else s2);
          ds = takeWhile (is_radix_digit R) s3
      in if ds = [] then None
         else Some (if negative then - int (digits_value R ds) else int (digits_value R ds)))"

text \<open>
  Modelled from the spec: the schema file schemas/shopping.json is not among the
  sources. A body is valid when it is an object whose \<^verbatim>\<open>ingredients\<close> field is an array
  of strings, \<^verbatim>\<open>{ingredients:[...]}\<close>; the result is then that array, otherwise the list of
  the validator's messages.
\<close>

fun string_items :: "json list \<Rightarrow> string list option" where
  "string_items [] = Some []"
| "string_items (JStr x # rest) = map_option (\<lambda>xs. x # xs) (string_items rest)"
| "string_items (_ # rest) = None"

definition validate_shoppingSchema :: "json \<Rightarrow> string list + string list" where
  "validate_shoppingSchema b =
     (case b of
        JObj props \<Rightarrow>
          (case map_of props ''ingredients'' of
             Some (JArr items) \<Rightarrow>
               (case string_items items of
                  Some ings \<Rightarrow> Inr ings
                | None \<Rightarrow> Inl [''instance.ingredients is not an array of strings''])
           | Some _ \<Rightarrow> Inl [''instance.ingredients is not of a type(s) array'']
           | None \<Rightarrow> Inl [''instance requires property ingredients''])
      | _ \<Rightarrow> Inl [''instance is not of a type(s) object''])"

record request =
  params_user_id :: string
  body :: json

text \<open>\<^verbatim>\<open>res.json(v)\<close>: status 200 unless set, and the JSON body.\<close>

record response =
  status :: nat
  json_body :: json

text \<open>
  \<^verbatim>\<open>router.post("/:user_id", ensureCorrectUser, ...)\<close>: the merge route. The arguments are
  the identity context left by the credential verifier, the store and the request; the
  result is the response, or the error handed to \<^verbatim>\<open>next\<close>, and the store afterwards.
\<close>

definition shopping_post :: "jwt_payload option \<Rightarrow> db \<Rightarrow> request \<Rightarrow> (error + response) \<times> db" where
  "shopping_post locals_user s req =
     (case ensureCorrectUser locals_user (params_user_id req) of
        Inl e \<Rightarrow> (Inl (gate_failure e), s)
      | Inr _ \<Rightarrow>
          (case parseInt (params_user_id req) of
             None \<Rightarrow> (Inl (BadRequestError (Msg ''Invalid user ID.'')), s)
           | Some userId \<Rightarrow>
               (case validate_shoppingSchema (body req) of
                  Inl errs \<Rightarrow> (Inl (BadRequestError (Msgs errs)), s)
                | Inr ings \<Rightarrow>
                    (case to_int4 userId of
                       Inl e \<Rightarrow> (Inl e, s)
                     | Inr uid \<Rightarrow>
                         (case addRecipeIngredients s uid ings of
                            Inl e \<Rightarrow> (Inl e, s)
                          | Inr (list, s') \<Rightarrow>
                              (Inr \<lparr>status = 200,
                                    json_body = JObj [(''list'', JArr (map JStr list))]\<rparr>, s'))))))"

text \<open>
  \<^verbatim>\<open>router.patch("/:user_id", ensureCorrectUser, ...)\<close>: the replace route.
  \<^verbatim>\<open>const list = await ShoppingList.updateList(...)\<close>, then \<^verbatim>\<open>res.json({ list })\<close>.
\<close>

definition shopping_patch :: "jwt_payload option \<Rightarrow> db \<Rightarrow> request \<Rightarrow> (error + response) \<times> db" where
  "shopping_patch locals_user s req =
     (case ensureCorrectUser locals_user (params_user_id req) of
        Inl e \<Rightarrow> (Inl (gate_failure e), s)
      | Inr _ \<Rightarrow>
          (case parseInt (params_user_id req) of
             None \<Rightarrow> (Inl (BadRequestError (Msg ''Invalid user ID.'')), s)
           | Some userId \<Rightarrow>
               (case validate_shoppingSchema (body req) of
                  Inl errs \<Rightarrow> (Inl (BadRequestError (Msgs errs)), s)
                | Inr ings \<Rightarrow>
                    (case to_int4 userId of
                       Inl e \<Rightarrow> (Inl e, s)
                     | Inr uid \<Rightarrow>
                         (case updateList s uid ings of
                            Inl e \<Rightarrow> (Inl e, s)
                          | Inr (list, s') \<Rightarrow>
                              (Inr \<lparr>status = 200, json_body = JObj [(''list'', list)]\<rparr>, s'))))))"

section \<open>Example data\<close>

text \<open>
  The first user and the first recipe that the test set-up creates, a store holding only
  that user, the claims of the tokens in the tests, and stand-ins for the two external
  collaborators (digest comparison and token verification).
\<close>

definition u1_row :: user_row where
  "u1_row = \<lparr>user_id = 1, username = Some ''u1'', password = Some ''digest-of-password1'',
     first_name = ''U1F'', last_name = ''U1L'', email = ''user1@user.com'', google_id = None\<rparr>"

definition r1_row :: recipe_row where
  "r1_row = \<lparr>recipe_id = ''123abc'', label = ''r1'', image = ''www.i1.com'',
     ingredients = [''i1'', ''i2''], url = ''www.test1.com''\<rparr>"

definition example_db :: db where
  "example_db = \<lparr>users = [u1_row], recipes = Map.empty, shopping_list = Map.empty\<rparr>"


definition test_claims :: jwt_payload where
  "test_claims = \<lparr>payload_firstName = ''test'', payload_user_id = ''0'', iat = 0\<rparr>"

definition u1_claims :: jwt_payload where
  "u1_claims = \<lparr>payload_firstName = ''U1F'', payload_user_id = ''1'', iat = 0\<rparr>"

definition test_verify :: "string \<Rightarrow> jwt_payload option" where
  "test_verify token = (if token = ''testJwt'' then Some test_claims else None)"

section \<open>Properties of the shopping list\<close>

lemma contained_by_iff: "contained_by a b \<longleftrightarrow> set a \<subseteq> set b"
  by (auto simp: contained_by_def list_all_iff)

lemma upsert_append_again: "upsert_append s u X = Inr s1 \<Longrightarrow> upsert_append s1 u X = Inr s1"
  by (auto simp: upsert_append_def contained_by_iff split: option.splits if_splits)

lemma select_user_upsert_append:
  "upsert_append s u X = Inr s1 \<Longrightarrow> select_user_by_id s1 v = select_user_by_id s v"
  by (auto simp: select_user_by_id_def upsert_append_def split: option.splits if_splits)

lemma storable_examples:
  "storable_array [''i1'']" "storable_array [''i1'', ''i2'']" "storable_array [''i3'']"
  "storable_array [''a'', ''a'']" "storable_array [''i3'', ''i1'', ''i3'']"
  "\<not> storable_array [[CHR 0x00]]"
  by (simp_all add: storable_array_def storable_text_def)

lemma example_db_user: "select_user_by_id example_db 1 = Some u1_row"
  by (simp add: select_user_by_id_def example_db_def u1_row_def)

text \<open>
  C1. The specification has \<^verbatim>\<open>addRecipeIngredients\<close> append, to a stored list, exactly the
  elements of the input that are not yet stored, so that replacing the list of a user by
  \<^verbatim>\<open>["i1"]\<close> and then adding \<^verbatim>\<open>["i1","i2"]\<close> stores \<^verbatim>\<open>["i1","i2"]\<close>. The code on that very
  sequence, for user 1: the input is not contained in the stored array as a whole, so
  the whole input is appended and \<^verbatim>\<open>"i1"\<close> is stored twice.
\<close>

theorem addRecipeIngredients_readds_present:
  "addRecipeIngredients (store_after example_db (updateList example_db 1 [''i1''])) 1 [''i1'', ''i2'']
     = Inr ([''i1'', ''i1'', ''i2''],
            example_db\<lparr>shopping_list := [1 \<mapsto> [''i1'', ''i1'', ''i2'']]\<rparr>)"
  by (simp add: addRecipeIngredients_def store_after_def updateList_def example_db_def u1_row_def
        select_user_by_id_def upsert_append_def getUserShoppingList_def contained_by_def
        storable_examples)

text \<open>
  C5. \<^verbatim>\<open>addRecipeIngredients\<close> is idempotent: for every store, user identifier and
  ingredient list, running it a second time with the same arguments leaves the store,
  and so the stored array of the user, as the first run left it. (When the user does
  not exist both runs fail and the store is untouched.)
\<close>

theorem addRecipeIngredients_idempotent:
  "(let s1 = store_after s (addRecipeIngredients s u X);
        s2 = store_after s1 (addRecipeIngredients s1 u X)
    in s2 = s1 \<and> getUserShoppingList s2 u = getUserShoppingList s1 u)"
proof -
  have "store_after s1 (addRecipeIngredients s1 u X) = s1"
    if "s1 = store_after s (addRecipeIngredients s u X)" for s1
  proof (cases "select_user_by_id s u")
    case None
    with that show ?thesis
      by (simp add: addRecipeIngredients_def store_after_def)
  next
    case (Some r)
    show ?thesis
    proof (cases "upsert_append s u X")
      case (Inl e)
      with Some that show ?thesis
        by (simp add: addRecipeIngredients_def store_after_def)
    next
      case (Inr t)
      with Some that have "s1 = t"
        by (simp add: addRecipeIngredients_def store_after_def)
      with Inr Some show ?thesis
        using upsert_append_again [OF Inr] select_user_upsert_append [OF Inr, of u]
        by (simp add: addRecipeIngredients_def store_after_def)
    qed
  qed
  then show ?thesis
    by (simp add: Let_def)
qed

text \<open>
  C6. For a user of the \<^verbatim>\<open>users\<close> table and an ingredient sequence that the store accepts
  (no string of it holds the NUL character), \<^verbatim>\<open>updateList\<close> succeeds whatever is stored,
  returns the confirmation, and stores exactly the given sequence (no merge, no
  deduplication), leaving the lists of other users alone; a sequence that the store does
  not accept fails with the store's error. After
  \<^verbatim>\<open>addRecipeIngredients(u, ["i1","i2"])\<close> and then \<^verbatim>\<open>updateList(u, ["i3"])\<close>,
  \<^verbatim>\<open>getUserShoppingList(u)\<close> is exactly \<^verbatim>\<open>["i3"]\<close>.
\<close>

theorem updateList_overwrites:
  assumes "select_user_by_id s u = Some r" and "storable_array xs"
  shows "updateList s u xs =
           Inr (JObj [(''message'', JStr ''Shopping list updated successfully.'')],
                s\<lparr>shopping_list := (shopping_list s)(u \<mapsto> xs)\<rparr>) \<and>
         getUserShoppingList (store_after s (updateList s u xs)) u = xs \<and>
         (\<forall>v. v \<noteq> u \<longrightarrow> shopping_list (store_after s (updateList s u xs)) v = shopping_list s v) \<and>
         (\<forall>ys. \<not> storable_array ys \<longrightarrow> updateList s u ys = Inl invalid_byte_sequence) \<and>
         (let s1 = store_after s (addRecipeIngredients s u [''i1'', ''i2'']);
              s2 = store_after s1 (updateList s1 u [''i3''])
          in getUserShoppingList s2 u = [''i3''])"
proof -
  have upd: "updateList t u zs =
               Inr (JObj [(''message'', JStr ''Shopping list updated successfully.'')],
                    t\<lparr>shopping_list := (shopping_list t)(u \<mapsto> zs)\<rparr>)"
    if "select_user_by_id t u = Some r" and "storable_array zs" for t zs
    using that by (simp add: updateList_def)
  have seq: "select_user_by_id (store_after s (addRecipeIngredients s u [''i1'', ''i2''])) u = Some r"
  proof (cases "upsert_append s u [''i1'', ''i2'']")
    case (Inl e)
    with assms(1) show ?thesis by (simp add: addRecipeIngredients_def store_after_def)
  next
    case (Inr t)
    with assms(1) select_user_upsert_append [OF Inr, of u] show ?thesis
      by (simp add: addRecipeIngredients_def store_after_def)
  qed
  show ?thesis
    using upd [OF assms] upd [OF seq storable_examples(3)]
    by (simp add: getUserShoppingList_def store_after_def Let_def updateList_def)
qed

theorem updateList_overwrites_witness:
  "select_user_by_id example_db 1 = Some u1_row \<and> storable_array [''a'', ''a''] \<and>
   getUserShoppingList (store_after example_db (updateList example_db 1 [''a'', ''a''])) 1 = [''a'', ''a''] \<and>
   updateList example_db 1 [[CHR 0x00]] = Inl invalid_byte_sequence \<and>
   (let s1 = store_after example_db (addRecipeIngredients example_db 1 [''i1'', ''i2'']);
        s2 = store_after s1 (updateList s1 1 [''i3''])
    in getUserShoppingList s2 1 = [''i3''])"
  using updateList_overwrites [OF example_db_user storable_examples(4)] example_db_user
        storable_examples(4,6)
  by blast

text \<open>
  C6, the unconditional overwrite refuted: for user 1 and the sequence of
  the one string that consists of the NUL character, \<^verbatim>\<open>updateList\<close> fails with the store's
  error and the list read back is not that sequence.
\<close>

theorem updateList_nul_counterexample:
  "select_user_by_id example_db 1 = Some u1_row \<and>
   updateList example_db 1 [[CHR 0x00]] = Inl invalid_byte_sequence \<and>
   getUserShoppingList (store_after example_db (updateList example_db 1 [[CHR 0x00]])) 1
     \<noteq> [[CHR 0x00]]"
  by (simp add: updateList_def storable_examples store_after_def getUserShoppingList_def
        example_db_user)
     (simp add: example_db_def)

text \<open>
  C10. For a user with a stored list \<open>S\<close>, \<^verbatim>\<open>addRecipeIngredients\<close> with an input \<open>N\<close>
  that the store accepts (no string of it holds the NUL character) is all-or-nothing:
  when every element of \<open>N\<close> occurs in \<open>S\<close> nothing is written and \<open>S\<close> is returned;
  otherwise the stored array becomes \<open>S\<close> followed by the whole of \<open>N\<close>, the elements of
  \<open>N\<close> that \<open>S\<close> already holds included. The containment test is on \<open>N\<close> as a whole. An
  input that the store does not accept fails with the store's error and leaves \<open>S\<close>.
\<close>

theorem addRecipeIngredients_all_or_nothing:
  assumes "select_user_by_id s u = Some r" and "shopping_list s u = Some S"
    and "storable_array N"
  shows "(set N \<subseteq> set S \<longrightarrow> addRecipeIngredients s u N = Inr (S, s)) \<and>
         (\<not> set N \<subseteq> set S \<longrightarrow> addRecipeIngredients s u N =
             Inr (S @ N, s\<lparr>shopping_list := (shopping_list s)(u \<mapsto> S @ N)\<rparr>)) \<and>
         (\<forall>M. \<not> storable_array M \<longrightarrow> addRecipeIngredients s u M = Inl invalid_byte_sequence)"
  using assms
  by (simp add: addRecipeIngredients_def upsert_append_def getUserShoppingList_def
        contained_by_iff)

theorem addRecipeIngredients_all_or_nothing_witness:
  "select_user_by_id (example_db\<lparr>shopping_list := [1 \<mapsto> [''i1'', ''i3'']]\<rparr>) 1 = Some u1_row \<and>
   storable_array [''i3'', ''i1'', ''i3''] \<and> storable_array [''i1'', ''i2''] \<and>
   fst (projr (addRecipeIngredients (example_db\<lparr>shopping_list := [1 \<mapsto> [''i1'', ''i3'']]\<rparr>) 1
          [''i3'', ''i1'', ''i3''])) = [''i1'', ''i3''] \<and>
   fst (projr (addRecipeIngredients (example_db\<lparr>shopping_list := [1 \<mapsto> [''i1'', ''i3'']]\<rparr>) 1
          [''i1'', ''i2''])) = [''i1'', ''i3'', ''i1'', ''i2'']"
proof -
  let ?s = "example_db\<lparr>shopping_list := [1 \<mapsto> [''i1'', ''i3'']]\<rparr>"
  have u: "select_user_by_id ?s 1 = Some u1_row"
    by (simp add: select_user_by_id_def example_db_def u1_row_def)
  have l: "shopping_list ?s 1 = Some [''i1'', ''i3'']"
    by simp
  show ?thesis
    using addRecipeIngredients_all_or_nothing [OF u l storable_examples(5)]
          addRecipeIngredients_all_or_nothing [OF u l storable_examples(2)] u
          storable_examples(2,5)
    by simp
qed

text \<open>
  C10, the unrestricted statement refuted: user 1 has the stored list \<^verbatim>\<open>["i1"]\<close>, and the input
  is the one string that consists of the NUL character. The input is not contained in
  the stored list, yet nothing is appended: the call fails with the store's error and
  the stored list is still \<^verbatim>\<open>["i1"]\<close>.
\<close>

theorem addRecipeIngredients_nul_counterexample:
  "shopping_list (example_db\<lparr>shopping_list := [1 \<mapsto> [''i1'']]\<rparr>) 1 = Some [''i1''] \<and>
   \<not> contained_by [[CHR 0x00]] [''i1''] \<and>
   addRecipeIngredients (example_db\<lparr>shopping_list := [1 \<mapsto> [''i1'']]\<rparr>) 1 [[CHR 0x00]]
     = Inl invalid_byte_sequence \<and>
   getUserShoppingList
     (store_after (example_db\<lparr>shopping_list := [1 \<mapsto> [''i1'']]\<rparr>)
        (addRecipeIngredients (example_db\<lparr>shopping_list := [1 \<mapsto> [''i1'']]\<rparr>) 1 [[CHR 0x00]])) 1
     = [''i1'']"
  by (simp add: addRecipeIngredients_def upsert_append_def storable_examples store_after_def
        getUserShoppingList_def contained_by_def select_user_by_id_def example_db_def u1_row_def)

section \<open>Properties of the user directory\<close>









section \<open>Properties of the recipe store\<close>

text \<open>
  C9. When a row with the given \<^verbatim>\<open>recipe_id\<close> exists, \<^verbatim>\<open>createRecipe\<close> leaves the store as
  it is and returns the array of the sanitized label, image, serialized ingredients and
  url of its input, which is not the stored row.
\<close>

theorem createRecipe_existing_key:
  assumes "recipes s (recipe_id d) = Some row"
  shows "createRecipe s d =
           Inr (JArr [JStr (sanitize (label d)), JStr (sanitize (image d)),
                      JStr (sanitize (JSON_stringify (ingredients d))), JStr (sanitize (url d))], s)
         \<and> createRecipe s d \<noteq> Inr (returning_row row, s)"
  using assms by (simp add: createRecipe_def Let_def returning_row_def)

lemma sanitize_examples:
  "sanitize [CHR ''a'', CHR 0x22, CHR ''b''] = [CHR ''a'', CHR 0x5C, CHR 0x22, CHR ''b'']"
  "sanitize ''www.i1.com'' = ''www.i1.com''"
  "sanitize ''www.test1.com'' = ''www.test1.com''"
  by (simp_all add: sanitize_def)

lemma stringify_example:
  "sanitize (JSON_stringify [''i1'', ''i2'']) =
     [CHR ''['', CHR 0x5C, CHR 0x22, CHR ''i'', CHR ''1'', CHR 0x5C, CHR 0x22, CHR '','',
      CHR 0x5C, CHR 0x22, CHR ''i'', CHR ''2'', CHR 0x5C, CHR 0x22, CHR '']'']"
  by (simp add: sanitize_def JSON_stringify_def json_quote_def json_escape_def)

theorem createRecipe_existing_key_witness:
  "recipes (example_db\<lparr>recipes := [''123abc'' \<mapsto> r1_row]\<rparr>)
     (recipe_id (r1_row\<lparr>label := [CHR ''a'', CHR 0x22, CHR ''b'']\<rparr>)) = Some r1_row \<and>
   createRecipe (example_db\<lparr>recipes := [''123abc'' \<mapsto> r1_row]\<rparr>)
     (r1_row\<lparr>label := [CHR ''a'', CHR 0x22, CHR ''b'']\<rparr>)
   = Inr (JArr [JStr [CHR ''a'', CHR 0x5C, CHR 0x22, CHR ''b''], JStr ''www.i1.com'',
                JStr [CHR ''['', CHR 0x5C, CHR 0x22, CHR ''i'', CHR ''1'', CHR 0x5C, CHR 0x22,
                      CHR '','', CHR 0x5C, CHR 0x22, CHR ''i'', CHR ''2'', CHR 0x5C, CHR 0x22,
                      CHR '']''],
                JStr ''www.test1.com''],
          example_db\<lparr>recipes := [''123abc'' \<mapsto> r1_row]\<rparr>)"
proof -
  let ?s = "example_db\<lparr>recipes := [''123abc'' \<mapsto> r1_row]\<rparr>"
  let ?d = "r1_row\<lparr>label := [CHR ''a'', CHR 0x22, CHR ''b'']\<rparr>"
  have k: "recipes ?s (recipe_id ?d) = Some r1_row"
    by (simp add: r1_row_def)
  have f: "label ?d = [CHR ''a'', CHR 0x22, CHR ''b'']" "image ?d = ''www.i1.com''"
    "ingredients ?d = [''i1'', ''i2'']" "url ?d = ''www.test1.com''"
    by (simp_all add: r1_row_def)
  from createRecipe_existing_key [OF k]
  have "createRecipe ?s ?d =
          Inr (JArr [JStr (sanitize (label ?d)), JStr (sanitize (image ?d)),
                     JStr (sanitize (JSON_stringify (ingredients ?d))), JStr (sanitize (url ?d))], ?s)"
    by (rule conjunct1)
  then show ?thesis
    using k by (simp only: f sanitize_examples stringify_example simp_thms)
qed

section \<open>Properties of the credential verifier and the authorization gate\<close>

lemma bearer_token_append: "bearer_token (''Bearer '' @ t) = Some t"
  by (simp add: bearer_token_def)

lemma bearer_token_SomeD: "bearer_token h = Some t \<Longrightarrow> h = ''Bearer '' @ t"
proof -
  assume a: "bearer_token h = Some t"
  then have "take 7 h = ''Bearer ''" and "t = drop 7 h"
    by (simp_all add: bearer_token_def split: if_splits)
  then have "''Bearer '' @ t = take 7 h @ drop 7 h" by (simp only:)
  then show ?thesis by (simp only: append_take_drop_id)
qed

text \<open>
  C2. \<^verbatim>\<open>ensureCorrectUser\<close> passes exactly when the identity context holds claims whose
  subject is the same string as the owner identifier of the path. With an empty identity
  context it fails with AuthenticationRequired; with claims whose subject is a different
  string it fails with OwnershipMismatch (the strings are compared as they are, so
  \<^verbatim>\<open>"0"\<close> does not match \<^verbatim>\<open>"NaN"\<close>, nor \<^verbatim>\<open>"00"\<close>). Either failure is a 401.
\<close>

theorem ensureCorrectUser_passes_iff:
  "(ensureCorrectUser ctx p = Inr () \<longleftrightarrow> (\<exists>c. ctx = Some c \<and> payload_user_id c = p)) \<and>
   (ctx = None \<longrightarrow> ensureCorrectUser ctx p = Inl AuthenticationRequired) \<and>
   (\<forall>c. ctx = Some c \<and> payload_user_id c \<noteq> p \<longrightarrow> ensureCorrectUser ctx p = Inl OwnershipMismatch) \<and>
   (\<forall>e. ensureCorrectUser ctx p = Inl e \<longrightarrow> status_of (gate_failure e) = 401)"
  by (auto simp: ensureCorrectUser_def gate_failure_def split: option.splits)

theorem ensureCorrectUser_passes_iff_witness:
  "ensureCorrectUser (Some test_claims) ''0'' = Inr () \<and>
   ensureCorrectUser (Some test_claims) ''NaN'' = Inl OwnershipMismatch \<and>
   ensureCorrectUser (Some test_claims) ''00'' = Inl OwnershipMismatch \<and>
   ensureCorrectUser None ''0'' = Inl AuthenticationRequired \<and>
   status_of (gate_failure OwnershipMismatch) = 401"
proof -
  have c: "payload_user_id test_claims = ''0''"
    by (simp add: test_claims_def)
  show ?thesis
    using ensureCorrectUser_passes_iff [of "Some test_claims" "''0''"]
          ensureCorrectUser_passes_iff [of "Some test_claims" "''NaN''"]
          ensureCorrectUser_passes_iff [of "Some test_claims" "''00''"]
          ensureCorrectUser_passes_iff [of None "''0''"] c
    by simp
qed

text \<open>
  C4. \<^verbatim>\<open>authenticateJWT\<close> never hands an error to \<^verbatim>\<open>next\<close>. Starting from an empty identity
  context, the context stays empty when there is no authorization header and when the
  bearer token fails verification; it holds the decoded claims when the token verifies,
  and only then.
\<close>

theorem authenticateJWT_never_rejects:
  "fst (authenticateJWT verify hdr None) = None \<and>
   (hdr = None \<longrightarrow> snd (authenticateJWT verify hdr None) = None) \<and>
   (\<forall>t. hdr = Some (''Bearer '' @ t) \<and> verify t = None \<longrightarrow>
        snd (authenticateJWT verify hdr None) = None) \<and>
   (\<forall>t c. hdr = Some (''Bearer '' @ t) \<and> verify t = Some c \<longrightarrow>
        snd (authenticateJWT verify hdr None) = Some c) \<and>
   (\<forall>c. snd (authenticateJWT verify hdr None) = Some c \<longrightarrow>
        (\<exists>t. hdr = Some (''Bearer '' @ t) \<and> verify t = Some c))"
proof (intro conjI allI impI)
  show "fst (authenticateJWT verify hdr None) = None"
    by (simp add: authenticateJWT_def split: option.splits)
next
  assume "hdr = None"
  then show "snd (authenticateJWT verify hdr None) = None"
    by (simp add: authenticateJWT_def)
next
  fix t assume "hdr = Some (''Bearer '' @ t) \<and> verify t = None"
  then show "snd (authenticateJWT verify hdr None) = None"
    by (simp add: authenticateJWT_def bearer_token_append del: append.simps)
next
  fix t c assume "hdr = Some (''Bearer '' @ t) \<and> verify t = Some c"
  then show "snd (authenticateJWT verify hdr None) = Some c"
    by (simp add: authenticateJWT_def bearer_token_append del: append.simps)
next
  fix c assume a: "snd (authenticateJWT verify hdr None) = Some c"
  then obtain h t where "hdr = Some h" "bearer_token h = Some t" "verify t = Some c"
    by (auto simp: authenticateJWT_def split: option.splits)
  then show "\<exists>t. hdr = Some (''Bearer '' @ t) \<and> verify t = Some c"
    using bearer_token_SomeD by blast
qed

theorem authenticateJWT_never_rejects_witness:
  "authenticateJWT test_verify (Some ''Bearer testJwt'') None = (None, Some test_claims) \<and>
   authenticateJWT test_verify None None = (None, None) \<and>
   authenticateJWT test_verify (Some ''Bearer badJwt'') None = (None, None)"
proof -
  have v: "test_verify ''testJwt'' = Some test_claims" "test_verify ''badJwt'' = None"
    by (simp_all add: test_verify_def)
  have h: "''Bearer testJwt'' = ''Bearer '' @ ''testJwt''" "''Bearer badJwt'' = ''Bearer '' @ ''badJwt''"
    by simp_all
  have a: "snd (authenticateJWT test_verify (Some ''Bearer testJwt'') None) = Some test_claims"
    using authenticateJWT_never_rejects [of test_verify "Some ''Bearer testJwt''"] v h by blast
  have b: "snd (authenticateJWT test_verify (Some ''Bearer badJwt'') None) = None"
    using authenticateJWT_never_rejects [of test_verify "Some ''Bearer badJwt''"] v h by blast
  have c: "snd (authenticateJWT test_verify None None) = None"
    using authenticateJWT_never_rejects [of test_verify None] by blast
  have d: "fst (authenticateJWT test_verify (Some ''Bearer testJwt'') None) = None"
    "fst (authenticateJWT test_verify (Some ''Bearer badJwt'') None) = None"
    "fst (authenticateJWT test_verify None None) = None"
    using authenticateJWT_never_rejects [of test_verify] by blast+
  show ?thesis
    using a b c d by (simp add: prod_eq_iff)
qed

section \<open>Properties of the clause builder\<close>

text \<open>
  C3. For the empty field map \<^verbatim>\<open>sqlForPartialUpdate\<close> fails with EmptyInputError. For a
  non-empty one it returns one fragment per field, in the order of the fields: the
  fragment at position \<open>i\<close> (from 0) is the remapped column name if the table has the
  field, the field's own name otherwise, then \<^verbatim>\<open> = $\<close> and the index \<open>i + 1\<close>; the values
  come in the same order.
\<close>

theorem sqlForPartialUpdate_fragments:
  "sqlForPartialUpdate [] tbl = Inl EmptyInputError \<and>
   (d \<noteq> [] \<longrightarrow>
     (\<exists>cols vals. sqlForPartialUpdate d tbl = Inr (cols, vals) \<and>
        length cols = length d \<and> vals = map snd d \<and>
        (\<forall>i < length d.
           cols ! i = (case tbl (fst (d ! i)) of Some c \<Rightarrow> c | None \<Rightarrow> fst (d ! i))
                        @ '' = $'' @ show_nat (i + 1))))"
  by (simp add: sqlForPartialUpdate_def nth_enumerate_eq set_fragment_def column_name_def)

lemma show_nat_examples:
  "show_nat 1 = ''1''" "show_nat 2 = ''2''" "show_nat 3 = ''3''" "show_nat (Suc 0) = ''1''" "show_nat (Suc (Suc 0)) = ''2''"
  by code_simp+

theorem sqlForPartialUpdate_fragments_witness:
  "(\<exists>cols vals.
      sqlForPartialUpdate [(''firstName'', JStr ''New''), (''email'', JStr ''new@user.com'')]
        user_jsToSql = Inr (cols, vals) \<and>
      length cols = 2 \<and> cols ! 0 = ''first_name = $1'' \<and> cols ! 1 = ''email = $2'' \<and>
      vals = [JStr ''New'', JStr ''new@user.com''])"
proof -
  let ?d = "[(''firstName'', JStr ''New''), (''email'', JStr ''new@user.com'')]"
  have ne: "?d \<noteq> []" by simp
  from sqlForPartialUpdate_fragments [of user_jsToSql ?d] ne
  obtain cols vals where r: "sqlForPartialUpdate ?d user_jsToSql = Inr (cols, vals)"
    and l: "length cols = length ?d" and v: "vals = map snd ?d"
    and f: "\<forall>i < length ?d. cols ! i =
              (case user_jsToSql (fst (?d ! i)) of Some c \<Rightarrow> c | None \<Rightarrow> fst (?d ! i))
                @ '' = $'' @ show_nat (i + 1)"
    by blast
  from f [THEN spec, of 0] have "cols ! 0 = ''first_name = $1''"
    by (simp add: user_jsToSql_def show_nat_examples)
  moreover from f [THEN spec, of 1] have "cols ! 1 = ''email = $2''"
    by (simp add: user_jsToSql_def show_nat_examples)
  ultimately show ?thesis using r l v by simp
qed

section \<open>Properties of the shopping routes\<close>

lemma parseInt_1: "parseInt ''1'' = Some 1"
  by (simp add: parseInt_def is_white_space_def is_radix_digit_def digit_value_def digits_value_def Let_def)

lemma parseInt_examples:
  "parseInt ''NaN'' = None" "parseInt '' -12ab'' = Some (- 12)" "parseInt ''0x1F'' = Some 31"
  by (simp_all add: parseInt_def is_white_space_def is_radix_digit_def digit_value_def digits_value_def Let_def)

lemma shopping_post_example:
  "shopping_post (Some u1_claims) example_db
      \<lparr>params_user_id = ''1'', body = JObj [(''ingredients'', JArr [JStr ''i3''])]\<rparr>
   = (Inr \<lparr>status = 200, json_body = JObj [(''list'', JArr [JStr ''i3''])]\<rparr>,
      example_db\<lparr>shopping_list := [1 \<mapsto> [''i3'']]\<rparr>)"
  by (simp add: shopping_post_def ensureCorrectUser_def u1_claims_def parseInt_1
       validate_shoppingSchema_def to_int4_def addRecipeIngredients_def example_db_user
       upsert_append_def getUserShoppingList_def storable_examples)
     (simp add: example_db_def)

lemma shopping_patch_success_body:
  "shopping_patch ctx s req = (Inr resp, s') \<Longrightarrow>
     resp = \<lparr>status = 200, json_body =
       JObj [(''list'', JObj [(''message'', JStr ''Shopping list updated successfully.'')])]\<rparr>"
  by (auto simp: shopping_patch_def updateList_def split: sum.splits option.splits if_splits)

text \<open>
  C8. The specification has a successful \<^verbatim>\<open>PATCH /shopping/:user_id\<close> answer 200 with a
  body whose \<^verbatim>\<open>list\<close> field is the ingredient array. The code, for user 1 with the token
  of user 1 and the body \<^verbatim>\<open>{ingredients: ["i3"]}\<close>: the array is stored, and the \<^verbatim>\<open>list\<close>
  field of the response is the confirmation object of \<^verbatim>\<open>updateList\<close>, not the array. (The
  merge route \<^verbatim>\<open>POST\<close> answers the same request with the array, see
  \<open>shopping_post_example\<close>.)
\<close>

theorem shopping_patch_returns_confirmation:
  "shopping_patch (Some u1_claims) example_db
      \<lparr>params_user_id = ''1'', body = JObj [(''ingredients'', JArr [JStr ''i3''])]\<rparr>
   = (Inr \<lparr>status = 200,
           json_body = JObj [(''list'', JObj [(''message'', JStr ''Shopping list updated successfully.'')])]\<rparr>,
      example_db\<lparr>shopping_list := [1 \<mapsto> [''i3'']]\<rparr>)"
  by (simp add: shopping_patch_def ensureCorrectUser_def u1_claims_def parseInt_1
       validate_shoppingSchema_def to_int4_def updateList_def example_db_user storable_examples)
     (simp add: example_db_def)

end
